theory Spec2Isabelle
  imports Main "HOL-Library.Word" "HOL-Library.Multiset"
begin

section \<open>Data model\<close>

text \<open>
  The archer controller (\<^verbatim>\<open>pkg/controller/service_controller.go\<close>,
  \<^verbatim>\<open>pkg/controller/util.go\<close>) reconciles a Kubernetes service object with an
  endpoint service of the Archer broker. Go strings are byte sequences (\<open>string\<close>),
  a pointer field is an \<open>option\<close> (\<open>None\<close> is nil), a Go map that may be nil is an
  optional partial map, \<open>int32\<close> is a 32-bit word.
\<close>

type_synonym int32 = "32 word"

text \<open>
  \<^verbatim>\<open>corev1.Service\<close>, restricted to the fields the controller reads or writes:
  \<^verbatim>\<open>ObjectMeta.{Namespace, Name, UID, Annotations, Finalizers, DeletionTimestamp}\<close>,
  \<^verbatim>\<open>Spec.ClusterIP\<close> and the \<^verbatim>\<open>Port\<close> of each entry of \<^verbatim>\<open>Spec.Ports\<close>.
  A time is its offset from Go's zero instant.
\<close>

record corev1_Service =
  Namespace :: string
  svcName :: string
  UID :: string
  Annotations :: "(string \<rightharpoonup> string) option"
  Finalizers :: "string list"
  DeletionTimestamp :: "int option"
  ClusterIP :: string
  Ports :: "int32 list"

text \<open>
  \<^verbatim>\<open>models.Service\<close> of the Archer client, restricted to the fields the controller
  sets or compares. \<^verbatim>\<open>Enabled\<close>, \<^verbatim>\<open>NetworkID\<close>, \<^verbatim>\<open>ProxyProtocol\<close>,
  \<^verbatim>\<open>RequireApproval\<close>, \<^verbatim>\<open>Visibility\<close> and \<^verbatim>\<open>AvailabilityZone\<close> are pointers.
\<close>

record models_Service =
  ID :: string
  Name :: string
  Description :: string
  Enabled :: "bool option"
  IPAddresses :: "string list"
  NetworkID :: "string option"
  Port :: int32
  ProxyProtocol :: "bool option"
  RequireApproval :: "bool option"
  Tags :: "string list"
  Visibility :: "string option"
  AvailabilityZone :: "string option"

text \<open>\<^verbatim>\<open>models.ServiceUpdatable\<close>, the body of an update request.\<close>

record models_ServiceUpdatable =
  updDescription :: "string option"
  updEnabled :: "bool option"
  updIPAddresses :: "string list"
  updName :: "string option"
  updPort :: "int32 option"
  updProxyProtocol :: "bool option"
  updRequireApproval :: "bool option"
  updTags :: "string list"
  updVisibility :: "string option"

text \<open>
  \<^verbatim>\<open>ArcherServiceReconciler\<close>: the configured network id and annotation prefix. The
  clients it holds are the collaborators below.
\<close>

record ArcherServiceReconciler =
  rNetworkID :: string
  AnnotationKey :: string

text \<open>
  Errors as values. \<open>NumError\<close> is what \<^verbatim>\<open>strconv.Atoi\<close> returns, \<open>ErrNoPorts\<close> and
  \<open>ErrMultiple\<close> are the two \<^verbatim>\<open>fmt.Errorf\<close> errors of the controller (with the
  namespace and name they print), \<open>ErrNotFound\<close> and \<open>ErrCollaborator\<close> come from
  the cluster client and the broker. A run-time panic is a \<open>fault\<close>.
\<close>

datatype fault = NilPointerDereference | AssignmentToNilMap

datatype NumErrKind = ErrSyntax | ErrRange

datatype error =
    ErrNotFound
  | ErrCollaborator string
  | NumError string NumErrKind
  | ErrNoPorts string string
  | ErrMultiple string string
  | Panic fault

section \<open>Annotation constants and utilities\<close>

definition AnnotationEndpointServiceCreate :: string where
  "AnnotationEndpointServiceCreate = ''archer-create''"

definition AnnotationEndpointServiceNetwork :: string where
  "AnnotationEndpointServiceNetwork = ''archer-network-id''"

definition AnnotationEndpointServiceName :: string where
  "AnnotationEndpointServiceName = ''archer-service-name''"

definition AnnotationEndpointServiceProxyProtocol :: string where
  "AnnotationEndpointServiceProxyProtocol = ''archer-proxy-protocol''"

definition AnnotationEndpointServiceVisibility :: string where
  "AnnotationEndpointServiceVisibility = ''archer-visibility''"

definition AnnotationEndpointServiceRequireApproval :: string where
  "AnnotationEndpointServiceRequireApproval = ''archer-require-approval''"

definition AnnotationEndpointServiceTags :: string where
  "AnnotationEndpointServiceTags = ''archer-tags''"

definition AnnotationEndpointServiceAvailabilityZone :: string where
  "AnnotationEndpointServiceAvailabilityZone = ''archer-availability-zone''"

definition AnnotationEndpointServicePort :: string where
  "AnnotationEndpointServicePort = ''archer-port''"

text \<open>\<^verbatim>\<open>getAnnotationBoolean\<close>: the default when the map is nil or lacks the key.\<close>

definition getAnnotationBoolean :: "string \<Rightarrow> corev1_Service \<Rightarrow> bool \<Rightarrow> bool" where
  "getAnnotationBoolean key svc dflt =
     (case Annotations svc of
        None \<Rightarrow> dflt
      | Some m \<Rightarrow> (case m key of None \<Rightarrow> dflt | Some v \<Rightarrow> v = ''true''))"

text \<open>
  \<^verbatim>\<open>getAnnotationString\<close> returns the pair \<^verbatim>\<open>(v, ok)\<close>; a missing key reads as the
  empty string with \<^verbatim>\<open>ok = false\<close>.
\<close>

definition getAnnotationString :: "string \<Rightarrow> corev1_Service \<Rightarrow> string \<times> bool" where
  "getAnnotationString key svc =
     (case Annotations svc of
        None \<Rightarrow> ([], False)
      | Some m \<Rightarrow> (case m key of None \<Rightarrow> ([], False) | Some v \<Rightarrow> (v, True)))"

text \<open>\<^verbatim>\<open>makeAnnotation\<close>: \<^verbatim>\<open>fmt.Sprintf("%s/%s", prefix, annotationKey)\<close>.\<close>

definition makeAnnotation :: "string \<Rightarrow> string \<Rightarrow> string" where
  "makeAnnotation prefix annotationKey = prefix @ ''/'' @ annotationKey"

section \<open>Library functions the controller calls\<close>

text \<open>
  \<^verbatim>\<open>strconv.Atoi\<close> of Go's standard library, for a 64-bit \<^verbatim>\<open>int\<close>: an optional sign,
  then one or more decimal digits; anything else is a syntax error, a value outside
  the 64-bit range a range error. \<open>parseDigits\<close> is the digit loop of
  \<^verbatim>\<open>ParseUint\<close>, which stops at the first byte that is no digit or overflows.
\<close>

definition isDigit :: "char \<Rightarrow> bool" where
  "isDigit c = ((of_char (CHR ''0'') :: int) \<le> of_char c \<and> (of_char c :: int) \<le> of_char (CHR ''9''))"

definition digitVal :: "char \<Rightarrow> int" where
  "digitVal c = (of_char c :: int) - of_char (CHR ''0'')"

fun parseDigits :: "string \<Rightarrow> int \<Rightarrow> NumErrKind + int" where
  "parseDigits [] n = Inr n"
| "parseDigits (c # cs) n =
     (if \<not> isDigit c then Inl ErrSyntax
      else if n * 10 + digitVal c \<ge> 2 ^ 64 then Inl ErrRange
      else parseDigits cs (n * 10 + digitVal c))"

definition Atoi :: "string \<Rightarrow> NumErrKind + int" where
  "Atoi s =
     (case s of
        [] \<Rightarrow> Inl ErrSyntax
      | c # cs \<Rightarrow>
          (let neg = (c = CHR ''-'');
               ds = (if c = CHR ''-'' \<or> c = CHR ''+'' then cs else s)
           in if ds = [] then Inl ErrSyntax
              else (case parseDigits ds 0 of
                      Inl e \<Rightarrow> Inl e
                    | Inr un \<Rightarrow>
                        if \<not> neg \<and> un \<ge> 2 ^ 63 then Inl ErrRange
                        else if neg \<and> un > 2 ^ 63 then Inl ErrRange
                        else Inr (if neg then - un else un))))"

text \<open>
  \<^verbatim>\<open>strings.Split(s, " ")\<close>: the substrings between occurrences of the single
  space byte; \<open>n\<close> spaces give \<open>n + 1\<close> fragments, empty ones included.
\<close>

fun Split_space :: "string \<Rightarrow> string list" where
  "Split_space [] = [[]]"
| "Split_space (c # cs) =
     (if c = CHR '' '' then [] # Split_space cs
      else (case Split_space cs of
              w # ws \<Rightarrow> (c # w) # ws
            | [] \<Rightarrow> [[c]]))"

text \<open>\<^verbatim>\<open>strings.Join(parts, " ")\<close>, the inverse of the split.\<close>

fun join_space :: "string list \<Rightarrow> string" where
  "join_space [] = []"
| "join_space [w] = w"
| "join_space (w # ws) = w @ CHR '' '' # join_space ws"

text \<open>
  The finalizer helpers of \<^verbatim>\<open>controllerutil\<close>: membership, append unless present,
  and removal of every occurrence. \<^verbatim>\<open>DeletionTimestamp.IsZero()\<close> holds for nil and
  for the zero instant.
\<close>

definition ContainsFinalizer :: "corev1_Service \<Rightarrow> string \<Rightarrow> bool" where
  "ContainsFinalizer svc f = (f \<in> set (Finalizers svc))"

definition AddFinalizer :: "corev1_Service \<Rightarrow> string \<Rightarrow> corev1_Service" where
  "AddFinalizer svc f =
     (if f \<in> set (Finalizers svc) then svc
      else svc\<lparr>Finalizers := Finalizers svc @ [f]\<rparr>)"

definition RemoveFinalizer :: "corev1_Service \<Rightarrow> string \<Rightarrow> corev1_Service" where
  "RemoveFinalizer svc f = svc\<lparr>Finalizers := filter (\<lambda>g. g \<noteq> f) (Finalizers svc)\<rparr>"

definition IsZero :: "int option \<Rightarrow> bool" where
  "IsZero t = (case t of None \<Rightarrow> True | Some i \<Rightarrow> i = 0)"

text \<open>\<^verbatim>\<open>client.IgnoreNotFound\<close>: a not-found error becomes nil.\<close>

definition IgnoreNotFound :: "error \<Rightarrow> error option" where
  "IgnoreNotFound err = (if err = ErrNotFound then None else Some err)"

section \<open>Desired state: getBodyFromService\<close>

text \<open>
  The function builds the body, then applies the annotations in the order of the
  source. \<^verbatim>\<open>body.Port = int32(p)\<close> truncates the parsed \<^verbatim>\<open>int\<close> to 32 bits.
\<close>

definition getBodyFromService ::
  "ArcherServiceReconciler \<Rightarrow> corev1_Service \<Rightarrow> error + models_Service" where
  "getBodyFromService r svc =
     (let body = \<lparr>ID = [],
                  Name = Namespace svc @ ''-'' @ svcName svc,
                  Description = ''Kubernetes service '' @ Namespace svc @ ''/'' @ svcName svc,
                  Enabled = None,
                  IPAddresses = [ClusterIP svc],
                  NetworkID = Some (rNetworkID r),
                  Port = 0,
                  ProxyProtocol = None,
                  RequireApproval = None,
                  Tags = [''kubernetes'', UID svc],
                  Visibility = Some ''public'',
                  AvailabilityZone = None\<rparr>;
          withPort =
            (case getAnnotationString (makeAnnotation (AnnotationKey r) AnnotationEndpointServicePort) svc of
               (port, True) \<Rightarrow>
                 (case Atoi port of
                    Inl e \<Rightarrow> Inl (NumError port e)
                  | Inr p \<Rightarrow> Inr (body\<lparr>Port := word_of_int p\<rparr>))
             | (_, False) \<Rightarrow>
                 (if length (Ports svc) > 0 then Inr (body\<lparr>Port := Ports svc ! 0\<rparr>)
                  else Inl (ErrNoPorts (Namespace svc) (svcName svc))))
      in case withPort of
           Inl e \<Rightarrow> Inl e
         | Inr b0 \<Rightarrow>
             (let b1 = (case getAnnotationString (makeAnnotation (AnnotationKey r) AnnotationEndpointServiceName) svc of
                          (name, True) \<Rightarrow> b0\<lparr>Name := name\<rparr>
                        | (_, False) \<Rightarrow> b0);
                  b2 = (case getAnnotationString (makeAnnotation (AnnotationKey r) AnnotationEndpointServiceNetwork) svc of
                          (network, True) \<Rightarrow> b1\<lparr>NetworkID := Some network\<rparr>
                        | (_, False) \<Rightarrow> b1);
                  b3 = (if getAnnotationBoolean (makeAnnotation (AnnotationKey r) AnnotationEndpointServiceProxyProtocol) svc False
                        then b2\<lparr>ProxyProtocol := Some True\<rparr> else b2);
                  b4 = (if getAnnotationBoolean (makeAnnotation (AnnotationKey r) AnnotationEndpointServiceRequireApproval) svc False
                        then b3\<lparr>RequireApproval := Some True\<rparr> else b3);
                  b5 = (case getAnnotationString (makeAnnotation (AnnotationKey r) AnnotationEndpointServiceTags) svc of
                          (tags, True) \<Rightarrow> b4\<lparr>Tags := Tags b4 @ Split_space tags\<rparr>
                        | (_, False) \<Rightarrow> b4);
                  b6 = (case getAnnotationString (makeAnnotation (AnnotationKey r) AnnotationEndpointServiceAvailabilityZone) svc of
                          (zone, True) \<Rightarrow> b5\<lparr>AvailabilityZone := Some zone\<rparr>
                        | (_, False) \<Rightarrow> b5);
                  b7 = (case getAnnotationString (makeAnnotation (AnnotationKey r) AnnotationEndpointServiceVisibility) svc of
                          (visibility, True) \<Rightarrow> b6\<lparr>Visibility := Some visibility\<rparr>
                        | (_, False) \<Rightarrow> b6)
              in Inr b7))"

section \<open>The diff: serviceEqual\<close>

text \<open>
  The two nested loops over addresses and over tags: the inner loop sets
  \<^verbatim>\<open>found\<close> and runs to the end of the remote list, the outer loop returns false
  at the first desired element that was not found.
  \<^verbatim>\<open>fmt.Sprint(ip2, "/32")\<close> is \<^verbatim>\<open>ip2\<close> followed by \<^verbatim>\<open>/32\<close> (no space is
  added next to a string operand).
\<close>

fun ipFound :: "string \<Rightarrow> string list \<Rightarrow> bool \<Rightarrow> bool" where
  "ipFound ip [] found = found"
| "ipFound ip (ip2 # rest) found =
     ipFound ip rest (if ip = ip2 \<or> ip = ip2 @ ''/32'' then True else found)"

fun ipLoop :: "string list \<Rightarrow> string list \<Rightarrow> bool" where
  "ipLoop [] ips2 = True"
| "ipLoop (ip # rest) ips2 = (if \<not> ipFound ip ips2 False then False else ipLoop rest ips2)"

fun tagFound :: "string \<Rightarrow> string list \<Rightarrow> bool \<Rightarrow> bool" where
  "tagFound tag [] found = found"
| "tagFound tag (tag2 # rest) found = tagFound tag rest (if tag = tag2 then True else found)"

fun tagLoop :: "string list \<Rightarrow> string list \<Rightarrow> bool" where
  "tagLoop [] tags2 = True"
| "tagLoop (tag # rest) tags2 = (if \<not> tagFound tag tags2 False then False else tagLoop rest tags2)"

text \<open>
  The condition \<^verbatim>\<open>s1.Enabled != nil && *s1.Enabled != *s2.Enabled\<close> dereferences
  \<^verbatim>\<open>s2.Enabled\<close> without a nil check: it faults when the first is set and the
  second is nil. The other pointer comparisons check both sides first.
\<close>

definition enabledDiffers :: "models_Service \<Rightarrow> models_Service \<Rightarrow> fault + bool" where
  "enabledDiffers s1 s2 =
     (case Enabled s1 of
        None \<Rightarrow> Inr False
      | Some e1 \<Rightarrow>
          (case Enabled s2 of
             None \<Rightarrow> Inl NilPointerDereference
           | Some e2 \<Rightarrow> Inr (e1 \<noteq> e2)))"

text \<open>
  The guarded comparison of two pointer fields,
  \<^verbatim>\<open>s1.X != nil && s2.X != nil && *s1.X != *s2.X\<close>.
\<close>

definition ptrDiffers :: "'a option \<Rightarrow> 'a option \<Rightarrow> bool" where
  "ptrDiffers p1 p2 =
     (case p1 of
        None \<Rightarrow> False
      | Some v1 \<Rightarrow> (case p2 of None \<Rightarrow> False | Some v2 \<Rightarrow> v1 \<noteq> v2))"

definition serviceEqual :: "models_Service \<Rightarrow> models_Service \<Rightarrow> fault + bool" where
  "serviceEqual s1 s2 =
     (if Name s1 \<noteq> Name s2 then Inr False
      else if Description s1 \<noteq> Description s2 then Inr False
      else (case enabledDiffers s1 s2 of
              Inl f \<Rightarrow> Inl f
            | Inr True \<Rightarrow> Inr False
            | Inr False \<Rightarrow>
                if length (IPAddresses s1) \<noteq> length (IPAddresses s2) then Inr False
                else if \<not> ipLoop (IPAddresses s1) (IPAddresses s2) then Inr False
                else if ptrDiffers (NetworkID s1) (NetworkID s2) then Inr False
                else if Port s1 \<noteq> Port s2 then Inr False
                else if ptrDiffers (ProxyProtocol s1) (ProxyProtocol s2) then Inr False
                else if ptrDiffers (RequireApproval s1) (RequireApproval s2) then Inr False
                else if length (Tags s1) \<noteq> length (Tags s2) then Inr False
                else if \<not> tagLoop (Tags s1) (Tags s2) then Inr False
                else if ptrDiffers (Visibility s1) (Visibility s2) then Inr False
                else Inr True))"

section \<open>Collaborators and the call log\<close>

text \<open>
  The cluster client (\<^verbatim>\<open>r.Get\<close>, \<^verbatim>\<open>r.Update\<close>) and the broker client
  (\<^verbatim>\<open>GetService\<close>, \<^verbatim>\<open>PostService\<close>, \<^verbatim>\<open>PutServiceServiceID\<close>,
  \<^verbatim>\<open>DeleteServiceServiceID\<close>) are outside the controller. Every call the controller
  issues is appended to a log, and a collaborator answers a call from the log of the
  calls before it and the call's arguments, so an answer may depend on anything that
  happened earlier. The local object after \<^verbatim>\<open>r.Update\<close> is the object that was sent.
\<close>

datatype call =
    CallGet "string \<times> string"
  | CallUpdate corev1_Service
  | CallGetService "string list"
  | CallPostService models_Service
  | CallPutServiceServiceID string models_ServiceUpdatable
  | CallDeleteServiceServiceID string

record Collaborators =
  Get :: "call list \<Rightarrow> string \<times> string \<Rightarrow> error + corev1_Service"
  Update :: "call list \<Rightarrow> corev1_Service \<Rightarrow> error option"
  GetService :: "call list \<Rightarrow> string list \<Rightarrow> error + models_Service list"
  PostService :: "call list \<Rightarrow> models_Service \<Rightarrow> error + string"
  PutServiceServiceID :: "call list \<Rightarrow> string \<Rightarrow> models_ServiceUpdatable \<Rightarrow> error option"
  DeleteServiceServiceID :: "call list \<Rightarrow> string \<Rightarrow> error option"

text \<open>\<^verbatim>\<open>new(corev1.Service)\<close>: the zero value \<^verbatim>\<open>Reconcile\<close> loads the object into.\<close>

definition zeroService :: corev1_Service where
  "zeroService = \<lparr>Namespace = [], svcName = [], UID = [], Annotations = None,
                   Finalizers = [], DeletionTimestamp = None, ClusterIP = [], Ports = []\<rparr>"

section \<open>The reconciler\<close>

text \<open>
  Each function takes the log so far and returns the error (\<open>None\<close> is nil), the
  local object as the function leaves it, and the extended log.
\<close>

definition createEndpointService ::
  "Collaborators \<Rightarrow> ArcherServiceReconciler \<Rightarrow> corev1_Service \<Rightarrow> call list
     \<Rightarrow> error option \<times> corev1_Service \<times> call list" where
  "createEndpointService env r svc tr =
     (case getBodyFromService r svc of
        Inl err \<Rightarrow> (Some err, svc, tr)
      | Inr body \<Rightarrow>
          (let tr1 = tr @ [CallPostService body]
           in case PostService env tr body of
                Inl err \<Rightarrow> (Some err, svc, tr1)
              | Inr resID \<Rightarrow>
                  (case Annotations svc of
                     None \<Rightarrow> (Some (Panic AssignmentToNilMap), svc, tr1)
                   | Some m \<Rightarrow>
                       (let svc1 = svc\<lparr>Annotations :=
                                     Some (m(makeAnnotation (AnnotationKey r) ''archer-id'' \<mapsto> resID))\<rparr>
                        in (Update env tr1 svc1, svc1, tr1 @ [CallUpdate svc1])))))"

definition updateEndpointService ::
  "Collaborators \<Rightarrow> ArcherServiceReconciler \<Rightarrow> corev1_Service \<Rightarrow> models_Service \<Rightarrow> call list
     \<Rightarrow> error option \<times> corev1_Service \<times> call list" where
  "updateEndpointService env r svc m tr =
     (case getBodyFromService r svc of
        Inl err \<Rightarrow> (Some err, svc, tr)
      | Inr body \<Rightarrow>
          (case serviceEqual body m of
             Inl f \<Rightarrow> (Some (Panic f), svc, tr)
           | Inr True \<Rightarrow> (None, svc, tr)
           | Inr False \<Rightarrow>
               (let b = \<lparr>updDescription = Some (Description body),
                         updEnabled = Enabled body,
                         updIPAddresses = IPAddresses body,
                         updName = Some (Name body),
                         updPort = Some (Port body),
                         updProxyProtocol = ProxyProtocol body,
                         updRequireApproval = RequireApproval body,
                         updTags = Tags body,
                         updVisibility = Visibility body\<rparr>
                in (PutServiceServiceID env tr (ID m) b, svc,
                    tr @ [CallPutServiceServiceID (ID m) b]))))"

definition deleteEndpointService ::
  "Collaborators \<Rightarrow> ArcherServiceReconciler \<Rightarrow> corev1_Service \<Rightarrow> call list
     \<Rightarrow> error option \<times> corev1_Service \<times> call list" where
  "deleteEndpointService env r svc tr =
     (case getAnnotationString (makeAnnotation (AnnotationKey r) ''id'') svc of
        (_, False) \<Rightarrow> (None, svc, tr)
      | (sid, True) \<Rightarrow>
          (DeleteServiceServiceID env tr sid, svc, tr @ [CallDeleteServiceServiceID sid]))"

definition reconcileEndpointService ::
  "Collaborators \<Rightarrow> ArcherServiceReconciler \<Rightarrow> corev1_Service \<Rightarrow> call list
     \<Rightarrow> error option \<times> corev1_Service \<times> call list" where
  "reconcileEndpointService env r svc tr =
     (let tags = [''kubernetes'', UID svc];
          tr1 = tr @ [CallGetService tags]
      in case GetService env tr tags of
           Inl err \<Rightarrow> (Some err, svc, tr1)
         | Inr items \<Rightarrow>
             if length items = 0 then createEndpointService env r svc tr1
             else if length items = 1 then updateEndpointService env r svc (items ! 0) tr1
             else (Some (ErrMultiple (Namespace svc) (svcName svc)), svc, tr1))"

definition Reconcile ::
  "Collaborators \<Rightarrow> ArcherServiceReconciler \<Rightarrow> string \<times> string \<Rightarrow> call list
     \<Rightarrow> error option \<times> corev1_Service \<times> call list" where
  "Reconcile env r req tr =
     (let tr0 = tr @ [CallGet req]
      in case Get env tr req of
           Inl err \<Rightarrow> (IgnoreNotFound err, zeroService, tr0)
         | Inr svc \<Rightarrow>
             (let createAnnotation = makeAnnotation (AnnotationKey r) AnnotationEndpointServiceCreate
              in if \<not> getAnnotationBoolean createAnnotation svc False then (None, svc, tr0)
                 else
                   (let archerFinalizerName = makeAnnotation (AnnotationKey r) ''finalizer''
                    in if IsZero (DeletionTimestamp svc) then
                         (if \<not> ContainsFinalizer svc archerFinalizerName then
                            (let svc1 = AddFinalizer svc archerFinalizerName;
                                 tr1 = tr0 @ [CallUpdate svc1]
                             in case Update env tr0 svc1 of
                                  Some err \<Rightarrow> (Some err, svc1, tr1)
                                | None \<Rightarrow> reconcileEndpointService env r svc1 tr1)
                          else reconcileEndpointService env r svc tr0)
                       else
                         (case (if ContainsFinalizer svc archerFinalizerName
                                then deleteEndpointService env r svc tr0
                                else (None, svc, tr0)) of
                            (Some err, svc1, tr1) \<Rightarrow> (Some err, svc1, tr1)
                          | (None, svc1, tr1) \<Rightarrow>
                              (let svc2 = RemoveFinalizer svc1 archerFinalizerName
                               in (Update env tr1 svc2, svc2, tr1 @ [CallUpdate svc2]))))))"

section \<open>The two halves of getBodyFromService\<close>

text \<open>
  For the proofs, \<open>getBodyFromService\<close> is read as its port step followed by its
  annotation steps. Both definitions repeat the text of the function above, and
  \<open>getBody_steps\<close> below shows by unfolding alone that their composition is the
  function.
\<close>

definition bodyWithPort ::
  "ArcherServiceReconciler \<Rightarrow> corev1_Service \<Rightarrow> error + models_Service" where
  "bodyWithPort r svc =
     (let body = \<lparr>ID = [],
                  Name = Namespace svc @ ''-'' @ svcName svc,
                  Description = ''Kubernetes service '' @ Namespace svc @ ''/'' @ svcName svc,
                  Enabled = None,
                  IPAddresses = [ClusterIP svc],
                  NetworkID = Some (rNetworkID r),
                  Port = 0,
                  ProxyProtocol = None,
                  RequireApproval = None,
                  Tags = [''kubernetes'', UID svc],
                  Visibility = Some ''public'',
                  AvailabilityZone = None\<rparr>
      in case getAnnotationString (makeAnnotation (AnnotationKey r) AnnotationEndpointServicePort) svc of
               (port, True) \<Rightarrow>
                 (case Atoi port of
                    Inl e \<Rightarrow> Inl (NumError port e)
                  | Inr p \<Rightarrow> Inr (body\<lparr>Port := word_of_int p\<rparr>))
             | (_, False) \<Rightarrow>
                 (if length (Ports svc) > 0 then Inr (body\<lparr>Port := Ports svc ! 0\<rparr>)
                  else Inl (ErrNoPorts (Namespace svc) (svcName svc))))"

definition bodyAnnotations ::
  "ArcherServiceReconciler \<Rightarrow> corev1_Service \<Rightarrow> models_Service \<Rightarrow> models_Service" where
  "bodyAnnotations r svc b0 =
             (let b1 = (case getAnnotationString (makeAnnotation (AnnotationKey r) AnnotationEndpointServiceName) svc of
                          (name, True) \<Rightarrow> b0\<lparr>Name := name\<rparr>
                        | (_, False) \<Rightarrow> b0);
                  b2 = (case getAnnotationString (makeAnnotation (AnnotationKey r) AnnotationEndpointServiceNetwork) svc of
                          (network, True) \<Rightarrow> b1\<lparr>NetworkID := Some network\<rparr>
                        | (_, False) \<Rightarrow> b1);
                  b3 = (if getAnnotationBoolean (makeAnnotation (AnnotationKey r) AnnotationEndpointServiceProxyProtocol) svc False
                        then b2\<lparr>ProxyProtocol := Some True\<rparr> else b2);
                  b4 = (if getAnnotationBoolean (makeAnnotation (AnnotationKey r) AnnotationEndpointServiceRequireApproval) svc False
                        then b3\<lparr>RequireApproval := Some True\<rparr> else b3);
                  b5 = (case getAnnotationString (makeAnnotation (AnnotationKey r) AnnotationEndpointServiceTags) svc of
                          (tags, True) \<Rightarrow> b4\<lparr>Tags := Tags b4 @ Split_space tags\<rparr>
                        | (_, False) \<Rightarrow> b4);
                  b6 = (case getAnnotationString (makeAnnotation (AnnotationKey r) AnnotationEndpointServiceAvailabilityZone) svc of
                          (zone, True) \<Rightarrow> b5\<lparr>AvailabilityZone := Some zone\<rparr>
                        | (_, False) \<Rightarrow> b5);
                  b7 = (case getAnnotationString (makeAnnotation (AnnotationKey r) AnnotationEndpointServiceVisibility) svc of
                          (visibility, True) \<Rightarrow> b6\<lparr>Visibility := Some visibility\<rparr>
                        | (_, False) \<Rightarrow> b6)
              in b7)"

section \<open>Splitting on whitespace, as the specification words it\<close>

text \<open>
  The specification says that the tags annotation is "split on whitespace". Read by
  its words, that is the list of maximal runs of bytes that are not whitespace
  (space, tab, line feed, vertical tab, form feed, carriage return). This definition
  follows the specification, not the source; it is compared with \<open>Split_space\<close>.
\<close>

definition isSpace :: "char \<Rightarrow> bool" where
  "isSpace c = (c = CHR '' '' \<or> c = CHR 0x09 \<or> c = CHR 0x0A \<or> c = CHR 0x0B
                \<or> c = CHR 0x0C \<or> c = CHR 0x0D)"

fun fieldsFrom :: "string \<Rightarrow> string \<Rightarrow> string list" where
  "fieldsFrom [] cur = (if cur = [] then [] else [cur])"
| "fieldsFrom (c # cs) cur =
     (if isSpace c then (if cur = [] then fieldsFrom cs [] else cur # fieldsFrom cs [])
      else fieldsFrom cs (cur @ [c]))"

definition spec_split_on_whitespace :: "string \<Rightarrow> string list" where
  "spec_split_on_whitespace s = fieldsFrom s []"

section \<open>Concrete inputs\<close>

text \<open>
  A reconciler with the prefix \<^verbatim>\<open>cloud.sap\<close> that \<^verbatim>\<open>cmd/main.go\<close> configures, a
  tracked service, the body \<open>getBodyFromService\<close> computes for it, a remote endpoint
  service that matches it, and collaborators that answer every call with success.
\<close>

definition exReconciler :: ArcherServiceReconciler where
  "exReconciler = \<lparr>rNetworkID = ''net-1'', AnnotationKey = ''cloud.sap''\<rparr>"

definition exService :: corev1_Service where
  "exService = \<lparr>Namespace = ''default'', svcName = ''web'', UID = ''u1'',
                  Annotations = Some [''cloud.sap/archer-create'' \<mapsto> ''true''],
                  Finalizers = [''cloud.sap/finalizer''],
                  DeletionTimestamp = None, ClusterIP = ''10.0.0.1'', Ports = [80, 443]\<rparr>"

definition exBody :: models_Service where
  "exBody = \<lparr>ID = [], Name = ''default-web'',
               Description = ''Kubernetes service default/web'',
               Enabled = None, IPAddresses = [''10.0.0.1''],
               NetworkID = Some ''net-1'', Port = 80, ProxyProtocol = None,
               RequireApproval = None, Tags = [''kubernetes'', ''u1''],
               Visibility = Some ''public'', AvailabilityZone = None\<rparr>"

definition exRemote :: models_Service where
  "exRemote = \<lparr>ID = ''id-1'', Name = ''default-web'',
                 Description = ''Kubernetes service default/web'',
                 Enabled = Some True, IPAddresses = [''10.0.0.1''],
                 NetworkID = Some ''net-1'', Port = 80, ProxyProtocol = Some False,
                 RequireApproval = Some False, Tags = [''kubernetes'', ''u1''],
                 Visibility = Some ''public'', AvailabilityZone = None\<rparr>"

definition exCollaborators :: "corev1_Service \<Rightarrow> models_Service list \<Rightarrow> Collaborators" where
  "exCollaborators svc items =
     \<lparr>Get = (\<lambda>tr req. Inr svc),
      Update = (\<lambda>tr obj. None),
      GetService = (\<lambda>tr tags. Inr items),
      PostService = (\<lambda>tr body. Inr ''id-1''),
      PutServiceServiceID = (\<lambda>tr sid b. None),
      DeleteServiceServiceID = (\<lambda>tr sid. None)\<rparr>"

text \<open>The service after a successful create, and a service with a tags annotation.\<close>

definition exCreated :: corev1_Service where
  "exCreated = exService\<lparr>Annotations :=
     Some [''cloud.sap/archer-create'' \<mapsto> ''true'', ''cloud.sap/archer-id'' \<mapsto> ''id-1'']\<rparr>"

definition exTagged :: "string \<Rightarrow> corev1_Service" where
  "exTagged tags = exService\<lparr>Annotations := Some [''cloud.sap/archer-tags'' \<mapsto> tags]\<rparr>"



section \<open>Unfolding the concrete inputs and the annotation keys\<close>

lemmas ex_defs = exCollaborators_def exService_def exReconciler_def exRemote_def exBody_def
  exCreated_def exTagged_def

lemmas annot_defs = makeAnnotation_def AnnotationEndpointServiceCreate_def
  AnnotationEndpointServiceNetwork_def AnnotationEndpointServiceName_def
  AnnotationEndpointServiceProxyProtocol_def AnnotationEndpointServiceVisibility_def
  AnnotationEndpointServiceRequireApproval_def AnnotationEndpointServiceTags_def
  AnnotationEndpointServiceAvailabilityZone_def AnnotationEndpointServicePort_def
  getAnnotationBoolean_def getAnnotationString_def

section \<open>The parsed integer\<close>

text \<open>A value \<open>Atoi\<close> returns fits the 64-bit \<^verbatim>\<open>int\<close>.\<close>

lemma parseDigits_nonneg: "0 \<le> n \<Longrightarrow> parseDigits s n = Inr un \<Longrightarrow> 0 \<le> un"
proof (induction s arbitrary: n)
  case Nil
  then show ?case by simp
next
  case (Cons c cs)
  from Cons.prems have digit: "isDigit c" and
    rest: "parseDigits cs (n * 10 + digitVal c) = Inr un"
    by (auto split: if_splits)
  from digit have "0 \<le> digitVal c"
    by (simp add: isDigit_def digitVal_def)
  with Cons.prems(1) have "0 \<le> n * 10 + digitVal c"
    by simp
  then show ?case
    using rest by (rule Cons.IH)
qed

lemma Atoi_range:
  assumes "Atoi s = Inr p"
  shows "- (2 ^ 63) \<le> p \<and> p < 2 ^ 63"
proof (cases s)
  case Nil
  with assms show ?thesis by (simp add: Atoi_def)
next
  case (Cons c cs)
  define ds where "ds = (if c = CHR ''-'' \<or> c = CHR ''+'' then cs else s)"
  obtain un where un: "parseDigits ds 0 = Inr un"
    using assms Cons by (cases "parseDigits ds 0") (simp_all add: Atoi_def Let_def ds_def split: if_splits)
  have nonneg: "0 \<le> un"
    using parseDigits_nonneg [OF _ un] by simp
  have res: "Inr p = (if c \<noteq> CHR ''-'' \<and> un \<ge> 2 ^ 63 then Inl ErrRange
        else if c = CHR ''-'' \<and> un > 2 ^ 63 then Inl ErrRange
        else Inr (if c = CHR ''-'' then - un else un))"
    using assms Cons un by (simp add: Atoi_def Let_def ds_def split: if_splits)
  show ?thesis
  proof (cases "c = CHR ''-''")
    case True
    with res have "un \<le> 2 ^ 63" and "p = - un"
      by (simp_all split: if_splits)
    with nonneg show ?thesis by simp
  next
    case False
    with res have "un < 2 ^ 63" and "p = un"
      by (simp_all split: if_splits)
    with nonneg show ?thesis by simp
  qed
qed

section \<open>The split on the space byte\<close>

text \<open>
  \<open>Split_space\<close> gives one fragment more than there are spaces, no fragment holds
  a space, and joining the fragments with spaces gives the string back.
\<close>

lemma Split_space_nonempty: "Split_space s \<noteq> []"
  by (induction s) (auto split: list.splits)

lemma Split_space_length:
  "length (Split_space s) = Suc (length (filter (\<lambda>c. c = CHR '' '') s))"
  by (induction s) (auto split: list.splits simp: Split_space_nonempty)

lemma Split_space_fragments: "w \<in> set (Split_space s) \<Longrightarrow> CHR '' '' \<notin> set w"
  by (induction s arbitrary: w) (auto split: list.splits if_splits)

lemma join_space_Cons: "join_space ((c # w) # ws) = c # join_space (w # ws)"
  by (cases ws) simp_all

lemma Split_space_join: "join_space (Split_space s) = s"
  by (induction s) (auto split: list.splits simp: Split_space_nonempty join_space_Cons)

section \<open>The loops of serviceEqual\<close>

lemma tagFound_iff: "tagFound t ts found = (found \<or> t \<in> set ts)"
  by (induction ts arbitrary: found) auto

lemma tagLoop_iff: "tagLoop ts ts2 = (set ts \<subseteq> set ts2)"
  by (induction ts) (auto simp: tagFound_iff)

lemma ipFound_iff:
  "ipFound ip ips found = (found \<or> (\<exists>ip2\<in>set ips. ip = ip2 \<or> ip = ip2 @ ''/32''))"
  by (induction ips arbitrary: found) auto

lemma ipLoop_iff:
  "ipLoop ips ips2 = (\<forall>ip\<in>set ips. \<exists>ip2\<in>set ips2. ip = ip2 \<or> ip = ip2 @ ''/32'')"
  by (induction ips) (auto simp: ipFound_iff)

text \<open>
  The verdict of \<open>serviceEqual\<close> is its verdict on the other fields together with
  the condition on the tag lists, and likewise for the address lists.
\<close>

lemma serviceEqual_Tags:
  "serviceEqual (d\<lparr>Tags := dt\<rparr>) (m\<lparr>Tags := mt\<rparr>) =
     (case serviceEqual (d\<lparr>Tags := []\<rparr>) (m\<lparr>Tags := []\<rparr>) of
        Inl f \<Rightarrow> Inl f
      | Inr b \<Rightarrow> Inr (b \<and> length dt = length mt \<and> set dt \<subseteq> set mt))"
  by (simp add: serviceEqual_def enabledDiffers_def tagLoop_iff
      split: option.splits sum.splits bool.splits)

lemma serviceEqual_IPAddresses:
  "serviceEqual (d\<lparr>IPAddresses := di\<rparr>) (m\<lparr>IPAddresses := mi\<rparr>) =
     (case serviceEqual (d\<lparr>IPAddresses := []\<rparr>) (m\<lparr>IPAddresses := []\<rparr>) of
        Inl f \<Rightarrow> Inl f
      | Inr b \<Rightarrow> Inr (b \<and> length di = length mi \<and>
                        (\<forall>ip\<in>set di. \<exists>ip2\<in>set mi. ip = ip2 \<or> ip = ip2 @ ''/32'')))"
  by (simp add: serviceEqual_def enabledDiffers_def ipLoop_iff
      split: option.splits sum.splits bool.splits)

lemma ptrDiffers_same: "\<not> ptrDiffers p p"
  by (simp add: ptrDiffers_def split: option.splits)

lemma serviceEqual_refl: "serviceEqual s s = Inr True"
  by (auto simp: serviceEqual_def enabledDiffers_def ptrDiffers_same ipLoop_iff tagLoop_iff
      split: option.splits)

text \<open>
  The \<^verbatim>\<open>/32\<close> rule appends the suffix to the remote address. A desired address is
  therefore never matched by the same address with the suffix on the remote side,
  while a desired address that carries the suffix matches the bare remote one.
\<close>

lemma bare_against_slash32:
  "serviceEqual (s\<lparr>IPAddresses := [a]\<rparr>) (s\<lparr>IPAddresses := [a @ ''/32'']\<rparr>) = Inr False"
  by (simp add: serviceEqual_def enabledDiffers_def split: option.splits)

lemma slash32_against_bare:
  "serviceEqual (s\<lparr>IPAddresses := [a @ ''/32'']\<rparr>) (s\<lparr>IPAddresses := [a]\<rparr>) = Inr True"
  by (simp add: serviceEqual_def enabledDiffers_def ptrDiffers_def tagLoop_iff
      split: option.splits)

lemma distinct_bare_addresses_unequal:
  assumes "a \<noteq> b" and "\<forall>c. a \<noteq> c @ ''/32''"
  shows "serviceEqual (s\<lparr>IPAddresses := [a]\<rparr>) (s\<lparr>IPAddresses := [b]\<rparr>) = Inr False"
  using assms by (simp add: serviceEqual_def enabledDiffers_def split: option.splits)

text \<open>
  \<open>serviceEqual\<close> faults exactly when the names and descriptions agree, the desired
  \<^verbatim>\<open>Enabled\<close> is set and the remote one is nil.
\<close>

lemma serviceEqual_fault_iff:
  "(\<exists>f. serviceEqual s1 s2 = Inl f) \<longleftrightarrow>
     Name s1 = Name s2 \<and> Description s1 = Description s2 \<and> Enabled s1 \<noteq> None \<and> Enabled s2 = None"
  by (auto simp: serviceEqual_def enabledDiffers_def
      split: option.splits sum.splits bool.splits if_splits)

text \<open>
  C2 (the code departs from the claim). A desired bare address \<^verbatim>\<open>10.0.0.1\<close> compared
  with the remote address \<^verbatim>\<open>10.0.0.1/32\<close> is judged unequal by \<open>serviceEqual\<close>,
  although everything else matches; the same two sides with equal addresses are
  judged equal, and so is the desired \<^verbatim>\<open>10.0.0.1/32\<close> against the remote bare
  address: the suffix is appended to the wrong side.
\<close>

theorem bare_address_against_slash32_unequal:
  "serviceEqual exBody (exRemote\<lparr>IPAddresses := [''10.0.0.1/32'']\<rparr>) = Inr False
   \<and> serviceEqual exBody exRemote = Inr True
   \<and> serviceEqual (exBody\<lparr>IPAddresses := [''10.0.0.1/32'']\<rparr>) exRemote = Inr True"
  by (simp add: serviceEqual_def enabledDiffers_def ptrDiffers_def exBody_def exRemote_def)

text \<open>
  C3 (the code departs from the claim). \<open>serviceEqual\<close> is not total: with the
  desired \<^verbatim>\<open>Enabled\<close> set and the remote \<^verbatim>\<open>Enabled\<close> nil, the comparison
  dereferences the nil pointer.
\<close>

theorem serviceEqual_nil_dereference:
  "serviceEqual (exRemote\<lparr>Enabled := Some True\<rparr>) (exRemote\<lparr>Enabled := None\<rparr>)
     = Inl NilPointerDereference"
  by (simp add: serviceEqual_def enabledDiffers_def exRemote_def)

text \<open>
  C9. The tag lists are judged equal exactly when they have the same length and
  every desired tag occurs in the remote list: the verdict of \<open>serviceEqual\<close> on two
  services is its verdict on the same services without tags, together with that
  condition. Hence a permutation of the remote tag list never changes the result.
\<close>

theorem tags_compared_as_sets:
  "serviceEqual (d\<lparr>Tags := dt\<rparr>) (m\<lparr>Tags := mt\<rparr>) =
     (case serviceEqual (d\<lparr>Tags := []\<rparr>) (m\<lparr>Tags := []\<rparr>) of
        Inl f \<Rightarrow> Inl f
      | Inr b \<Rightarrow> Inr (b \<and> length dt = length mt \<and> set dt \<subseteq> set mt))
   \<and> (mset mt' = mset mt \<longrightarrow>
        serviceEqual (d\<lparr>Tags := dt\<rparr>) (m\<lparr>Tags := mt'\<rparr>)
          = serviceEqual (d\<lparr>Tags := dt\<rparr>) (m\<lparr>Tags := mt\<rparr>))"
proof (intro conjI impI)
  show "serviceEqual (d\<lparr>Tags := dt\<rparr>) (m\<lparr>Tags := mt\<rparr>) =
     (case serviceEqual (d\<lparr>Tags := []\<rparr>) (m\<lparr>Tags := []\<rparr>) of
        Inl f \<Rightarrow> Inl f
      | Inr b \<Rightarrow> Inr (b \<and> length dt = length mt \<and> set dt \<subseteq> set mt))"
    by (rule serviceEqual_Tags)
next
  assume perm: "mset mt' = mset mt"
  have "length mt' = length mt"
    using perm by (metis size_mset)
  moreover have "set mt' = set mt"
    using perm by (metis set_mset_mset)
  ultimately show "serviceEqual (d\<lparr>Tags := dt\<rparr>) (m\<lparr>Tags := mt'\<rparr>)
      = serviceEqual (d\<lparr>Tags := dt\<rparr>) (m\<lparr>Tags := mt\<rparr>)"
    by (simp add: serviceEqual_Tags [where mt = mt'] serviceEqual_Tags [where mt = mt]
        cong: sum.case_cong)
qed

theorem tags_compared_as_sets_witness:
  "serviceEqual (exBody\<lparr>Tags := [''kubernetes'', ''u1'', ''a'']\<rparr>)
                (exRemote\<lparr>Tags := [''a'', ''u1'', ''kubernetes'']\<rparr>) = Inr True
   \<and> serviceEqual (exBody\<lparr>Tags := [''kubernetes'', ''u1'', ''a'']\<rparr>)
                  (exRemote\<lparr>Tags := [''kubernetes'', ''u1'', ''a'']\<rparr>) = Inr True
   \<and> serviceEqual (exBody\<lparr>Tags := [''kubernetes'', ''u1'', ''a'']\<rparr>)
                  (exRemote\<lparr>Tags := [''kubernetes'', ''u1'']\<rparr>) = Inr False"
proof -
  have perm: "mset [''a'', ''u1'', ''kubernetes''] = mset [''kubernetes'', ''u1'', ''a'']"
    by (simp add: add.commute add.left_commute)
  have rest: "serviceEqual (exBody\<lparr>Tags := []\<rparr>) (exRemote\<lparr>Tags := []\<rparr>) = Inr True"
    by (simp add: serviceEqual_def enabledDiffers_def ptrDiffers_def exBody_def exRemote_def)
  show ?thesis
    using tags_compared_as_sets [where d = exBody and m = exRemote
        and dt = "[''kubernetes'', ''u1'', ''a'']" and mt = "[''kubernetes'', ''u1'', ''a'']"
        and mt' = "[''a'', ''u1'', ''kubernetes'']"]
      tags_compared_as_sets [where d = exBody and m = exRemote
        and dt = "[''kubernetes'', ''u1'', ''a'']" and mt = "[''kubernetes'', ''u1'']"
        and mt' = "[''kubernetes'', ''u1'']"]
      perm rest
    by simp
qed

section \<open>The desired state\<close>

lemma getBody_steps:
  "getBodyFromService r svc =
     (case bodyWithPort r svc of Inl e \<Rightarrow> Inl e | Inr b0 \<Rightarrow> Inr (bodyAnnotations r svc b0))"
  by (simp only: getBodyFromService_def bodyWithPort_def bodyAnnotations_def Let_def)

text \<open>A field read through an annotation step that does not touch the field.\<close>

lemma proj_pair_case:
  "h (case p of (v, True) \<Rightarrow> f v | (v, False) \<Rightarrow> g v) =
     (case p of (v, True) \<Rightarrow> h (f v) | (v, False) \<Rightarrow> h (g v))"
  by (simp split: prod.splits bool.splits)

lemma pair_case_same: "(case p of (v, True) \<Rightarrow> c | (v, False) \<Rightarrow> c) = c"
  by (simp split: prod.splits bool.splits)

lemma step_pair:
  "(\<And>v. h (f v) = h b) \<Longrightarrow> h (case p of (v, True) \<Rightarrow> f v | (v, False) \<Rightarrow> b) = h b"
  by (simp split: prod.splits bool.splits)

lemma step_if: "h x = h b \<Longrightarrow> h (if c then x else b) = h b"
  by simp

lemma Tags_bodyAnnotations:
  "Tags (bodyAnnotations r svc b0) = Tags b0 @
     (case getAnnotationString (makeAnnotation (AnnotationKey r) AnnotationEndpointServiceTags) svc of
        (tags, True) \<Rightarrow> Split_space tags | (_, False) \<Rightarrow> [])"
  unfolding bodyAnnotations_def Let_def
  apply (simp add: proj_pair_case[of Tags] if_distrib[of Tags] pair_case_same)
  apply (simp split: prod.splits bool.splits)
  done

lemma Port_bodyAnnotations: "Port (bodyAnnotations r svc b0) = Port b0"
  unfolding bodyAnnotations_def Let_def
  by (simp add: step_pair[of Port] step_if[of Port] split del: if_split)

lemma Enabled_bodyAnnotations: "Enabled (bodyAnnotations r svc b0) = Enabled b0"
  unfolding bodyAnnotations_def Let_def
  by (simp add: step_pair[of Enabled] step_if[of Enabled] split del: if_split)

lemma bodyWithPort_fields:
  "bodyWithPort r svc = Inr b0 \<Longrightarrow> Tags b0 = [''kubernetes'', UID svc] \<and> Enabled b0 = None"
  unfolding bodyWithPort_def Let_def
  by (auto split: prod.splits bool.splits sum.splits if_splits)

lemma bodyWithPort_Port:
  "map_sum id Port (bodyWithPort r svc) =
     (case getAnnotationString (makeAnnotation (AnnotationKey r) AnnotationEndpointServicePort) svc of
        (port, True) \<Rightarrow>
          (case Atoi port of Inl e \<Rightarrow> Inl (NumError port e) | Inr p \<Rightarrow> Inr (word_of_int p))
      | (_, False) \<Rightarrow>
          (case Ports svc of
             [] \<Rightarrow> Inl (ErrNoPorts (Namespace svc) (svcName svc))
           | p # _ \<Rightarrow> Inr p))"
  unfolding bodyWithPort_def Let_def
  by (auto split: prod.splits bool.splits sum.splits if_splits list.splits)

lemma getBody_Tags:
  "getBodyFromService r svc = Inr b \<Longrightarrow>
   Tags b = [''kubernetes'', UID svc] @
     (case getAnnotationString (makeAnnotation (AnnotationKey r) AnnotationEndpointServiceTags) svc of
        (tags, True) \<Rightarrow> Split_space tags | (_, False) \<Rightarrow> [])"
  by (auto simp: getBody_steps Tags_bodyAnnotations split: sum.splits dest: bodyWithPort_fields)

lemma getBody_Enabled: "getBodyFromService r svc = Inr b \<Longrightarrow> Enabled b = None"
  by (auto simp: getBody_steps Enabled_bodyAnnotations split: sum.splits dest: bodyWithPort_fields)

text \<open>
  The desired side never sets \<^verbatim>\<open>Enabled\<close>, so the comparison inside
  \<open>updateEndpointService\<close> does not reach the nil dereference.
\<close>

lemma serviceEqual_desired_total:
  "getBodyFromService r svc = Inr body \<Longrightarrow> \<exists>b. serviceEqual body m = Inr b"
  using serviceEqual_fault_iff [of body m] getBody_Enabled [of r svc body]
  by (cases "serviceEqual body m") auto

lemma getBody_example: "getBodyFromService exReconciler exService = Inr exBody"
  by (simp add: getBodyFromService_def ex_defs annot_defs)

lemma getBody_exTagged:
  "getBodyFromService exReconciler (exTagged tags)
     = Inr (exBody\<lparr>Tags := [''kubernetes'', ''u1''] @ Split_space tags\<rparr>)"
  by (simp add: getBodyFromService_def ex_defs annot_defs)

text \<open>
  C5. The port of the desired specification: with a port annotation, its value
  parsed by \<^verbatim>\<open>strconv.Atoi\<close> (truncated to \<^verbatim>\<open>int32\<close>), and the parse error when
  parsing fails; without one, the first declared port, and the "no ports" error when
  the service declares none. \<open>getBodyFromService\<close> has no other error.
\<close>

theorem port_precedence:
  "map_sum id Port (getBodyFromService r svc) =
     (case getAnnotationString (makeAnnotation (AnnotationKey r) AnnotationEndpointServicePort) svc of
        (port, True) \<Rightarrow>
          (case Atoi port of Inl e \<Rightarrow> Inl (NumError port e) | Inr p \<Rightarrow> Inr (word_of_int p))
      | (_, False) \<Rightarrow>
          (case Ports svc of
             [] \<Rightarrow> Inl (ErrNoPorts (Namespace svc) (svcName svc))
           | p # _ \<Rightarrow> Inr p))"
proof -
  have "map_sum id Port (getBodyFromService r svc) = map_sum id Port (bodyWithPort r svc)"
    by (simp add: getBody_steps Port_bodyAnnotations split: sum.splits)
  then show ?thesis by (simp only: bodyWithPort_Port)
qed

theorem port_precedence_witness:
  "map_sum id Port (getBodyFromService exReconciler exService) = Inr 80
   \<and> map_sum id Port (getBodyFromService exReconciler (exService\<lparr>Ports := []\<rparr>))
       = Inl (ErrNoPorts ''default'' ''web'')
   \<and> map_sum id Port (getBodyFromService exReconciler
        (exService\<lparr>Annotations := Some [''cloud.sap/archer-port'' \<mapsto> ''8080'']\<rparr>)) = Inr 8080
   \<and> map_sum id Port (getBodyFromService exReconciler
        (exService\<lparr>Annotations := Some [''cloud.sap/archer-port'' \<mapsto> ''http''], Ports := []\<rparr>))
       = Inl (NumError ''http'' ErrSyntax)"
  using port_precedence [of exReconciler exService]
    port_precedence [of exReconciler "exService\<lparr>Ports := []\<rparr>"]
    port_precedence [of exReconciler
      "exService\<lparr>Annotations := Some [''cloud.sap/archer-port'' \<mapsto> ''8080'']\<rparr>"]
    port_precedence [of exReconciler
      "exService\<lparr>Annotations := Some [''cloud.sap/archer-port'' \<mapsto> ''http''], Ports := []\<rparr>"]
  by (simp add: ex_defs annot_defs Atoi_def isDigit_def digitVal_def)

text \<open>
  C8. Whenever \<open>getBodyFromService\<close> returns a specification, its tag list
  contains the marker \<^verbatim>\<open>kubernetes\<close> and the unique id of the service, whatever the
  annotations are.
\<close>

theorem tags_contain_markers:
  assumes "getBodyFromService r svc = Inr b"
  shows "''kubernetes'' \<in> set (Tags b) \<and> UID svc \<in> set (Tags b)"
  using getBody_Tags [OF assms] by simp

theorem tags_contain_markers_witness:
  "getBodyFromService exReconciler (exTagged ''a b'')
     = Inr (exBody\<lparr>Tags := [''kubernetes'', ''u1'', ''a'', ''b'']\<rparr>)
   \<and> ''kubernetes'' \<in> set [''kubernetes'', ''u1'', ''a'', ''b'']
   \<and> UID (exTagged ''a b'') \<in> set [''kubernetes'', ''u1'', ''a'', ''b'']"
proof -
  have body: "getBodyFromService exReconciler (exTagged ''a b'')
      = Inr (exBody\<lparr>Tags := [''kubernetes'', ''u1'', ''a'', ''b'']\<rparr>)"
    by (simp add: getBody_exTagged)
  show ?thesis
    using tags_contain_markers [OF body] body by simp
qed

text \<open>
  C10 (as amended). With a tags annotation present, the tag list of the desired
  specification is the two markers followed by the fragments of the annotation value
  between single space bytes, as \<^verbatim>\<open>strings.Split(tags, " ")\<close> gives them: a tab
  or a line feed does not separate, and two adjacent spaces give an empty fragment.
\<close>

theorem tags_split_on_space:
  assumes "Annotations svc = Some m"
    and "m (makeAnnotation (AnnotationKey r) AnnotationEndpointServiceTags) = Some tags"
    and "getBodyFromService r svc = Inr b"
  shows "Tags b = [''kubernetes'', UID svc] @ Split_space tags"
  using getBody_Tags [OF assms(3)] assms(1,2) by (simp add: getAnnotationString_def)

theorem tags_split_on_space_witness:
  "getBodyFromService exReconciler (exTagged ''a  b'')
     = Inr (exBody\<lparr>Tags := [''kubernetes'', ''u1'', ''a'', [], ''b'']\<rparr>)
   \<and> Tags (exBody\<lparr>Tags := [''kubernetes'', ''u1'', ''a'', [], ''b'']\<rparr>)
       = [''kubernetes'', UID (exTagged ''a  b'')] @ Split_space ''a  b''"
proof -
  have body: "getBodyFromService exReconciler (exTagged ''a  b'')
      = Inr (exBody\<lparr>Tags := [''kubernetes'', ''u1'', ''a'', [], ''b'']\<rparr>)"
    by (simp add: getBody_exTagged)
  have ann: "Annotations (exTagged ''a  b'') = Some [''cloud.sap/archer-tags'' \<mapsto> ''a  b'']"
    by (simp add: exTagged_def)
  have key: "[''cloud.sap/archer-tags'' \<mapsto> ''a  b'']
      (makeAnnotation (AnnotationKey exReconciler) AnnotationEndpointServiceTags) = Some ''a  b''"
    by (simp add: exReconciler_def annot_defs)
  show ?thesis
    using tags_split_on_space [OF ann key body] body by simp
qed

text \<open>
  C10 as stated fails: the annotation value \<^verbatim>\<open>a<TAB>b\<close> is one fragment for the
  code, and two for a split on whitespace.
\<close>

theorem tags_not_split_on_tab:
  "map_sum id Tags (getBodyFromService exReconciler (exTagged [CHR ''a'', CHR 0x09, CHR ''b'']))
     = Inr [''kubernetes'', ''u1'', [CHR ''a'', CHR 0x09, CHR ''b'']]
   \<and> map_sum id Tags (getBodyFromService exReconciler (exTagged [CHR ''a'', CHR 0x09, CHR ''b'']))
     \<noteq> Inr ([''kubernetes'', ''u1''] @ spec_split_on_whitespace [CHR ''a'', CHR 0x09, CHR ''b''])"
  by (simp add: getBody_exTagged spec_split_on_whitespace_def isSpace_def)

section \<open>The reconcile procedure\<close>

lemma reconcileEndpointService_multiple:
  assumes "GetService env tr [''kubernetes'', UID svc] = Inr items"
    and "2 \<le> length items"
  shows "reconcileEndpointService env r svc tr =
           (Some (ErrMultiple (Namespace svc) (svcName svc)), svc,
            tr @ [CallGetService [''kubernetes'', UID svc]])"
  using assms by (auto simp: reconcileEndpointService_def Let_def)

text \<open>
  C4. A reconcile of a tracked service that is not being deleted (create annotation
  true, no deletion timestamp, finalizer present), for which the lookup by the tags
  \<^verbatim>\<open>kubernetes\<close> and the unique id returns two or more endpoint services, returns
  the "multiple endpoint services" error; the only calls it issues are the load of
  the object and the lookup, so no create, update or delete call and no update of
  the object; the local object is unchanged.
\<close>

theorem Reconcile_multiple_matches:
  assumes "Get env tr req = Inr svc"
    and "getAnnotationBoolean (makeAnnotation (AnnotationKey r) AnnotationEndpointServiceCreate) svc False"
    and "IsZero (DeletionTimestamp svc)"
    and "ContainsFinalizer svc (makeAnnotation (AnnotationKey r) ''finalizer'')"
    and "GetService env (tr @ [CallGet req]) [''kubernetes'', UID svc] = Inr items"
    and "2 \<le> length items"
  shows "Reconcile env r req tr =
           (Some (ErrMultiple (Namespace svc) (svcName svc)), svc,
            tr @ [CallGet req, CallGetService [''kubernetes'', UID svc]])"
  using assms by (simp add: Reconcile_def reconcileEndpointService_multiple)

theorem Reconcile_multiple_matches_witness:
  "Reconcile (exCollaborators exService [exRemote, exRemote]) exReconciler (''default'', ''web'') [] =
     (Some (ErrMultiple ''default'' ''web''), exService,
      [CallGet (''default'', ''web''), CallGetService [''kubernetes'', ''u1'']])"
  using Reconcile_multiple_matches [of "exCollaborators exService [exRemote, exRemote]" "[]"
      "(''default'', ''web'')" exService exReconciler "[exRemote, exRemote]"]
  by (simp add: exCollaborators_def exService_def exReconciler_def annot_defs IsZero_def
      ContainsFinalizer_def)

text \<open>
  C6. For a loaded service whose annotation map is nil, lacks the create key, or maps
  it to a string other than \<^verbatim>\<open>true\<close>, \<open>Reconcile\<close> returns nil; the load is the only
  call it issues (no broker call, no update of the object) and the object is
  unchanged, whatever its deletion timestamp and finalizers are.
\<close>

theorem Reconcile_without_create_annotation:
  assumes "Get env tr req = Inr svc"
    and "\<forall>m. Annotations svc = Some m \<longrightarrow>
           m (makeAnnotation (AnnotationKey r) AnnotationEndpointServiceCreate) \<noteq> Some ''true''"
  shows "Reconcile env r req tr = (None, svc, tr @ [CallGet req])"
proof -
  have "\<not> getAnnotationBoolean (makeAnnotation (AnnotationKey r) AnnotationEndpointServiceCreate) svc False"
    using assms(2) by (auto simp: getAnnotationBoolean_def split: option.splits)
  with assms(1) show ?thesis by (simp add: Reconcile_def)
qed

theorem Reconcile_without_create_annotation_witness:
  "Reconcile (exCollaborators (exService\<lparr>Annotations := Some [''cloud.sap/archer-create'' \<mapsto> ''yes''],
                                           DeletionTimestamp := Some 1\<rparr>) [exRemote])
     exReconciler (''default'', ''web'') [] =
     (None, exService\<lparr>Annotations := Some [''cloud.sap/archer-create'' \<mapsto> ''yes''],
                       DeletionTimestamp := Some 1\<rparr>,
      [CallGet (''default'', ''web'')])"
  using Reconcile_without_create_annotation [of
      "exCollaborators (exService\<lparr>Annotations := Some [''cloud.sap/archer-create'' \<mapsto> ''yes''],
                                    DeletionTimestamp := Some 1\<rparr>) [exRemote]"
      "[]" "(''default'', ''web'')"
      "exService\<lparr>Annotations := Some [''cloud.sap/archer-create'' \<mapsto> ''yes''],
                  DeletionTimestamp := Some 1\<rparr>" exReconciler]
  by (simp add: exCollaborators_def exService_def exReconciler_def annot_defs)




section \<open>The recorded identifier\<close>

text \<open>
  \<open>createEndpointService\<close> records the identifier under the suffix \<^verbatim>\<open>archer-id\<close>,
  \<open>deleteEndpointService\<close> reads the suffix \<^verbatim>\<open>id\<close>. The two keys differ for every
  prefix, so unless the object already carried the second key, the deletion path
  finds no identifier after a successful create and issues no delete call.
\<close>

lemma annotation_keys_differ: "makeAnnotation p ''archer-id'' \<noteq> makeAnnotation p ''id''"
  by (simp add: makeAnnotation_def)

lemma created_identifier_not_read_back:
  assumes "Annotations svc = Some m"
    and "m (makeAnnotation (AnnotationKey r) ''id'') = None"
    and "createEndpointService env r svc tr = (None, svc', tr')"
  shows "deleteEndpointService env' r svc' tr'' = (None, svc', tr'')"
proof -
  from assms(1,3) obtain resID where
    "svc' = svc\<lparr>Annotations := Some (m(makeAnnotation (AnnotationKey r) ''archer-id'' \<mapsto> resID))\<rparr>"
    by (auto simp: createEndpointService_def Let_def split: sum.splits)
  with assms(2) show ?thesis
    using annotation_keys_differ [of "AnnotationKey r"]
    by (simp add: deleteEndpointService_def getAnnotationString_def)
qed

text \<open>
  C1 (the code departs from the claim). A first reconcile of a service without a
  remote endpoint service creates one and records the identifier \<^verbatim>\<open>id-1\<close> under
  \<^verbatim>\<open>cloud.sap/archer-id\<close>. The reconcile of that object after its deletion was
  requested issues no delete call: it only removes the finalizer and persists the
  object, and the remote endpoint service stays.
\<close>

theorem recorded_identifier_lost_on_deletion:
  "Reconcile (exCollaborators (exService\<lparr>Finalizers := []\<rparr>) []) exReconciler (''default'', ''web'') [] =
     (None, exCreated,
      [CallGet (''default'', ''web''), CallUpdate exService, CallGetService [''kubernetes'', ''u1''],
       CallPostService exBody, CallUpdate exCreated])
   \<and> getAnnotationString ''cloud.sap/archer-id'' exCreated = (''id-1'', True)
   \<and> Reconcile (exCollaborators (exCreated\<lparr>DeletionTimestamp := Some 1\<rparr>) [exRemote])
        exReconciler (''default'', ''web'') [] =
     (None, exCreated\<lparr>DeletionTimestamp := Some 1, Finalizers := []\<rparr>,
      [CallGet (''default'', ''web''),
       CallUpdate (exCreated\<lparr>DeletionTimestamp := Some 1, Finalizers := []\<rparr>)])"
  by (simp add: Reconcile_def reconcileEndpointService_def createEndpointService_def
      deleteEndpointService_def getBody_example [unfolded exService_def exReconciler_def]
      exCollaborators_def exService_def exReconciler_def exCreated_def annot_defs
      IsZero_def ContainsFinalizer_def AddFinalizer_def RemoveFinalizer_def Let_def)

end
